theory Spec2Isabelle
  imports Main
begin

section \<open>Strings of the server (server/src/app.ts)\<close>

text \<open>
  A JavaScript string is modelled as a \<^typ>\<open>string\<close>: a list of code units, each below
  256 (the Latin-1 part of UTF-16). Every literal of the source is ASCII. Code units from
  256 on are outside the model.
\<close>

definition code :: "char \<Rightarrow> nat" where
  "code c = of_char c"

definition newline :: char where
  "newline = CHR 0x0A"

definition dquote :: char where
  "dquote = CHR 0x22"

definition squote :: char where
  "squote = CHR 0x27"

text \<open>
  White space of \<open>String.prototype.trim\<close> and of the regular expression class \<open>\s\<close>:
  TAB, LF, VT, FF, CR, SPACE and NBSP are the ones below 256.
\<close>

definition isSpace :: "char \<Rightarrow> bool" where
  "isSpace c = (code c = 9 \<or> code c = 10 \<or> code c = 11 \<or> code c = 12 \<or> code c = 13
                \<or> code c = 32 \<or> code c = 160)"

text \<open>The class \<open>\d\<close>.\<close>

definition isDigit :: "char \<Rightarrow> bool" where
  "isDigit c = (48 \<le> code c \<and> code c \<le> 57)"

text \<open>
  Letters with a lower-case partner below 256: \<open>A-Z\<close> and the Latin-1 capitals
  \<open>0xC0-0xDE\<close> without the multiplication sign \<open>0xD7\<close>.
\<close>

definition isUpper :: "char \<Rightarrow> bool" where
  "isUpper c = ((65 \<le> code c \<and> code c \<le> 90) \<or> (192 \<le> code c \<and> code c \<le> 214)
                \<or> (216 \<le> code c \<and> code c \<le> 222))"

definition toLowerChar :: "char \<Rightarrow> char" where
  "toLowerChar c = (if isUpper c then char_of (code c + 32) else c)"

text \<open>
  \<open>toUpperCase\<close> on one character: \<open>a-z\<close> and the Latin-1 small letters \<open>0xE0-0xFE\<close>
  without the division sign \<open>0xF7\<close>. The source applies it to the first letter of a
  vocabulary word only; the three characters below 256 whose upper-case form is not below
  256 (\<open>0xB5\<close>, \<open>0xDF\<close>, \<open>0xFF\<close>) are left as they are here.
\<close>

definition toUpperChar :: "char \<Rightarrow> char" where
  "toUpperChar c = (if (97 \<le> code c \<and> code c \<le> 122) \<or> (224 \<le> code c \<and> code c \<le> 246)
                       \<or> (248 \<le> code c \<and> code c \<le> 254)
                    then char_of (code c - 32) else c)"

text \<open>\<open>s.toLowerCase()\<close>\<close>

definition toLowerCase :: "string \<Rightarrow> string" where
  "toLowerCase s = map toLowerChar s"

text \<open>\<open>s.startsWith(p)\<close>\<close>

fun startsWith :: "string \<Rightarrow> string \<Rightarrow> bool" where
  "startsWith s [] = True"
| "startsWith [] (p # ps) = False"
| "startsWith (c # cs) (p # ps) = (c = p \<and> startsWith cs ps)"

text \<open>\<open>s.includes(sub)\<close>: \<open>sub\<close> occurs at some position of \<open>s\<close>.\<close>

fun str_includes :: "string \<Rightarrow> string \<Rightarrow> bool" where
  "str_includes [] sub = startsWith [] sub"
| "str_includes (c # cs) sub = (startsWith (c # cs) sub \<or> str_includes cs sub)"

text \<open>
  \<open>s.split(sep)\<close> for a separator of one character: \<open>n\<close> occurrences of the separator
  give \<open>n + 1\<close> pieces, and the empty string gives one empty piece.
\<close>

fun split_on :: "char \<Rightarrow> string \<Rightarrow> string list" where
  "split_on sep [] = [[]]"
| "split_on sep (c # cs) =
     (if c = sep then [] # split_on sep cs
      else (case split_on sep cs of
              [] \<Rightarrow> [[c]]
            | p # ps \<Rightarrow> (c # p) # ps))"

text \<open>\<open>s.trim()\<close>\<close>

definition trim :: "string \<Rightarrow> string" where
  "trim s = rev (dropWhile isSpace (rev (dropWhile isSpace s)))"

text \<open>\<open>xs.join(sep)\<close>\<close>

fun join :: "string \<Rightarrow> string list \<Rightarrow> string" where
  "join sep [] = []"
| "join sep [x] = x"
| "join sep (x # y # ys) = x @ sep @ join sep (y # ys)"

text \<open>
  \<open>xs[i]\<close> on an array: \<open>undefined\<close> out of range, here \<open>None\<close>.
\<close>

fun at_index :: "'a list \<Rightarrow> nat \<Rightarrow> 'a option" where
  "at_index [] i = None"
| "at_index (x # xs) 0 = Some x"
| "at_index (x # xs) (Suc i) = at_index xs i"

text \<open>
  \<open>v || d\<close> for an optional string \<open>v\<close>: \<open>undefined\<close> and the empty string are falsy.
\<close>

definition or_default :: "string option \<Rightarrow> string \<Rightarrow> string" where
  "or_default v d = (case v of None \<Rightarrow> d | Some s \<Rightarrow> if s = [] then d else s)"

section \<open>Regular expressions of the extractors\<close>

text \<open>
  The three regular expressions of the source only repeat character classes, so the
  backtracking matcher of JavaScript is written with two combinators. \<open>greedy p k acc s\<close>
  is \<open>[p]*\<close> followed by the rest of the pattern \<open>k\<close>: it takes the longest run first and
  gives characters back one at a time while the rest fails. \<open>acc\<close> collects what the
  repetition has consumed and is handed to the rest, which receives the remaining input too.
\<close>

fun greedy :: "(char \<Rightarrow> bool) \<Rightarrow> (string \<Rightarrow> string \<Rightarrow> 'a option) \<Rightarrow> string \<Rightarrow> string \<Rightarrow> 'a option" where
  "greedy p k acc [] = k acc []"
| "greedy p k acc (c # cs) =
     (if p c then (case greedy p k (acc @ [c]) cs of
                     Some r \<Rightarrow> Some r
                   | None \<Rightarrow> k acc (c # cs))
      else k acc (c # cs))"

text \<open>\<open>[p]+\<close> followed by \<open>k\<close>.\<close>

definition greedy1 :: "(char \<Rightarrow> bool) \<Rightarrow> (string \<Rightarrow> string \<Rightarrow> 'a option) \<Rightarrow> string \<Rightarrow> 'a option" where
  "greedy1 p k s = (case s of [] \<Rightarrow> None | c # cs \<Rightarrow> if p c then greedy p k [c] cs else None)"

text \<open>
  A literal under the flag \<open>i\<close>: the literals of the source are lower-case ASCII words, and
  a code unit below 256 matches such a letter exactly when its lower-case form is the
  letter. The result is the input after the literal.
\<close>

fun lit_ci :: "string \<Rightarrow> string \<Rightarrow> string option" where
  "lit_ci [] s = Some s"
| "lit_ci (p # ps) [] = None"
| "lit_ci (p # ps) (c # cs) = (if toLowerChar c = p then lit_ci ps cs else None)"

text \<open>An alternation of literals \<open>(?:a|b|...)\<close> at the end of a pattern: the first that matches.\<close>

fun alt_ci :: "string list \<Rightarrow> string \<Rightarrow> string option" where
  "alt_ci [] s = None"
| "alt_ci (p # ps) s = (case lit_ci p s of Some r \<Rightarrow> Some r | None \<Rightarrow> alt_ci ps s)"

text \<open>
  \<open>text.match(re)\<close> without the flag \<open>g\<close>: the pattern is tried at every position from the
  left, the end of the input included, and the first success is the match.
\<close>

fun search :: "(string \<Rightarrow> 'a option) \<Rightarrow> string \<Rightarrow> 'a option" where
  "search m [] = m []"
| "search m (c # cs) = (case m (c # cs) of Some r \<Rightarrow> Some r | None \<Rightarrow> search m cs)"

section \<open>The analysis record\<close>

record ProjectInfo =
  title :: string
  fileName :: string
  uploadDate :: string
  scale :: string
  sheetNumber :: string

text \<open>
  \<open>floors\<close> is \<open>number | string\<close> in the source. The number comes from \<open>parseInt\<close> on a run
  of decimal digits, so it is a double whose value is a natural number, or \<open>Infinity\<close>:
  \<open>FloorsNumber\<close> carries the value of the double.
\<close>

datatype Floors = FloorsNumber nat | FloorsInfinity | FloorsText string

record StructuralElements =
  floors :: Floors
  type :: string
  foundation :: "string option"

record AnalysisResult =
  documentType :: string
  projectInfo :: ProjectInfo
  drawings :: "string list"
  generalNotes :: "string list"
  keyFeatures :: "string list"
  materialsList :: "string list"
  structuralElements :: StructuralElements
  extractedText :: string

section \<open>Helper functions of the extractor\<close>

definition isTypeLabelLine :: "string \<Rightarrow> bool" where
  "isTypeLabelLine line = (str_includes line ''document type'' \<or> str_includes line ''type of drawing'')"

text \<open>
  \<open>extractDocumentType\<close>: the loop returns at the first line of the lower-cased text that
  carries a label, whatever follows the colon; the keyword tests come after the loop.
\<close>

definition extractDocumentType :: "string \<Rightarrow> string" where
  "extractDocumentType text =
     (case find isTypeLabelLine (split_on newline (toLowerCase text)) of
        Some line \<Rightarrow>
          or_default (map_option trim (at_index (split_on (CHR '':'') line) 1)) ''Architectural Drawing''
      | None \<Rightarrow>
          if str_includes (toLowerCase text) ''floor plan'' then ''Floor Plan''
          else if str_includes (toLowerCase text) ''elevation'' then ''Building Elevation''
          else if str_includes (toLowerCase text) ''section'' then ''Building Section''
          else ''Architectural Drawing'')"

definition isTitleLine :: "string \<Rightarrow> bool" where
  "isTitleLine line = (str_includes (toLowerCase line) ''project'' \<or> str_includes (toLowerCase line) ''title'')"

definition extractProjectTitle :: "string \<Rightarrow> string" where
  "extractProjectTitle text =
     (case find isTitleLine (split_on newline text) of
        Some line \<Rightarrow>
          or_default (map_option trim (at_index (split_on (CHR '':'') line) 1)) ''Architectural Project''
      | None \<Rightarrow> ''Architectural Project'')"

text \<open>The class \<open>[:\s]\<close>.\<close>

definition colonOrSpace :: "char \<Rightarrow> bool" where
  "colonOrSpace c = (c = CHR '':'' \<or> isSpace c)"

text \<open>The class \<open>[0-9\/"\s='-]\<close>.\<close>

definition scaleClass :: "char \<Rightarrow> bool" where
  "scaleClass c = (isDigit c \<or> c = CHR ''/'' \<or> c = dquote \<or> isSpace c \<or> c = CHR ''=''
                   \<or> c = squote \<or> c = CHR ''-'')"

text \<open>\<open>/scale[:\s]*([0-9\/"\s='-]+)/i\<close> tried at one position; the result is group 1.\<close>

definition scaleAt :: "string \<Rightarrow> string option" where
  "scaleAt s =
     (case lit_ci ''scale'' s of
        None \<Rightarrow> None
      | Some r \<Rightarrow> greedy colonOrSpace (\<lambda>_ r2. greedy1 scaleClass (\<lambda>g _. Some g) r2) [] r)"

definition extractScale :: "string \<Rightarrow> string" where
  "extractScale text = (case search scaleAt text of Some g \<Rightarrow> trim g | None \<Rightarrow> ''Not specified'')"

text \<open>The class \<open>[A-Z0-9\-\.]\<close> under the flag \<open>i\<close>.\<close>

definition sheetClass :: "char \<Rightarrow> bool" where
  "sheetClass c = ((65 \<le> code c \<and> code c \<le> 90) \<or> (97 \<le> code c \<and> code c \<le> 122) \<or> isDigit c
                   \<or> c = CHR ''-'' \<or> c = CHR ''.'')"

text \<open>\<open>/sheet[:\s]*([A-Z0-9\-\.]+)/i\<close> tried at one position; the result is group 1.\<close>

definition sheetAt :: "string \<Rightarrow> string option" where
  "sheetAt s =
     (case lit_ci ''sheet'' s of
        None \<Rightarrow> None
      | Some r \<Rightarrow> greedy colonOrSpace (\<lambda>_ r2. greedy1 sheetClass (\<lambda>g _. Some g) r2) [] r)"

definition extractSheetNumber :: "string \<Rightarrow> string" where
  "extractSheetNumber text = (case search sheetAt text of Some g \<Rightarrow> trim g | None \<Rightarrow> ''Not specified'')"

text \<open>
  The three line filters: a line is kept, trimmed, when its lower-case form contains one of
  the keywords of the category.
\<close>

definition includesAny :: "string list \<Rightarrow> string \<Rightarrow> bool" where
  "includesAny keywords line = list_ex (\<lambda>k. str_includes (toLowerCase line) k) keywords"

definition extractDrawings :: "string \<Rightarrow> string list" where
  "extractDrawings text =
     (let drawings = map trim (filter (includesAny [''elevation'', ''plan'', ''section'', ''detail'',
                                                     ''view'', ''drawing''])
                                (split_on newline text))
      in if length drawings > 0 then drawings else [''Architectural drawings present''])"

definition extractNotes :: "string \<Rightarrow> string list" where
  "extractNotes text =
     (let notes = map trim (filter (includesAny [''note'', ''specification'', ''requirement'', ''code'',
                                                 ''standard''])
                             (split_on newline text))
      in if length notes > 0 then notes else [''Construction notes may be present''])"

definition extractFeatures :: "string \<Rightarrow> string list" where
  "extractFeatures text =
     (let features = map trim (filter (includesAny [''feature'', ''element'', ''room'', ''space'',
                                                    ''area'', ''design''])
                                (split_on newline text))
      in if length features > 0 then features else [''Architectural features identified''])"

definition commonMaterials :: "string list" where
  "commonMaterials =
     [''concrete'', ''steel'', ''wood'', ''brick'', ''stone'', ''glass'', ''metal'',
      ''granite'', ''copper'', ''aluminum'', ''vinyl'', ''ceramic'', ''tile'',
      ''drywall'', ''insulation'', ''roofing'', ''flooring'', ''siding'']"

text \<open>\<open>material.charAt(0).toUpperCase() + material.slice(1)\<close>, on a vocabulary word.\<close>

definition capitalize :: "string \<Rightarrow> string" where
  "capitalize material = (case material of [] \<Rightarrow> [] | c # cs \<Rightarrow> toUpperChar c # cs)"

definition extractMaterials :: "string \<Rightarrow> string list" where
  "extractMaterials text =
     (let materials = map capitalize (filter (\<lambda>material. str_includes (toLowerCase text) material)
                                        commonMaterials)
      in if length materials > 0 then materials else [''Building materials specified''])"

text \<open>The integer that a run of decimal digits denotes.\<close>

definition decimalValue :: "string \<Rightarrow> nat" where
  "decimalValue ds = foldl (\<lambda>n c. 10 * n + (code c - 48)) 0 ds"

fun bitLength :: "nat \<Rightarrow> nat" where
  "bitLength n = (if n = 0 then 0 else Suc (bitLength (n div 2)))"

text \<open>
  The double nearest to a natural number, ties to the even significand, as the conversion
  of an integer to a JavaScript number rounds: exact below \<open>2^53\<close>, 53 significant bits
  above, and \<open>None\<close> for \<open>Infinity\<close>, which is the result from \<open>2^1024 - 2^970\<close> on.
\<close>

definition roundToDouble :: "nat \<Rightarrow> nat option" where
  "roundToDouble n =
     (if n < 2 ^ 53 then Some n
      else (let e = bitLength n - 53;
                q = n div 2 ^ e;
                r = n mod 2 ^ e;
                half = 2 ^ (e - 1);
                q' = (if half < r \<or> (r = half \<and> odd q) then q + 1 else q);
                v = q' * 2 ^ e
            in if 2 ^ 1024 \<le> v then None else Some v))"

text \<open>\<open>parseInt\<close> on a run of decimal digits; \<open>None\<close> is \<open>Infinity\<close>.\<close>

definition parseInt :: "string \<Rightarrow> nat option" where
  "parseInt ds = roundToDouble (decimalValue ds)"

text \<open>
  \<open>/(\d+)\s*(?:floor|story|level|storey)/i\<close> tried at one position; the result is group 1.
\<close>

definition floorAt :: "string \<Rightarrow> string option" where
  "floorAt s =
     greedy1 isDigit
       (\<lambda>d r. greedy isSpace
                 (\<lambda>_ r2. case alt_ci [''floor'', ''story'', ''level'', ''storey''] r2 of
                            None \<Rightarrow> None
                          | Some _ \<Rightarrow> Some d)
                 [] r)
       s"

text \<open>
  \<open>extractStructuralElements\<close>: the four tests on the building type are separate \<open>if\<close>
  statements that assign to the same variable, one after the other.
\<close>

definition extractStructuralElements :: "string \<Rightarrow> StructuralElements" where
  "extractStructuralElements text =
     (let floorMatch = search floorAt text;
          floors = (case floorMatch of
                      Some d \<Rightarrow> (case parseInt d of Some n \<Rightarrow> FloorsNumber n
                                                    | None \<Rightarrow> FloorsInfinity)
                    | None \<Rightarrow> FloorsText ''Not specified'');
          type0 = ''Building structure'';
          type1 = (if str_includes (toLowerCase text) ''residential'' then ''Residential structure'' else type0);
          type2 = (if str_includes (toLowerCase text) ''commercial'' then ''Commercial structure'' else type1);
          type3 = (if str_includes (toLowerCase text) ''office'' then ''Office building'' else type2);
          type4 = (if str_includes (toLowerCase text) ''house'' then ''House'' else type3)
      in \<lparr> floors = floors,
           type = type4,
           foundation = (if str_includes (toLowerCase text) ''foundation''
                         then Some ''Foundation details specified'' else None) \<rparr>)"

text \<open>
  The record built by the upload handler from the text of the model (the object literal
  \<open>analysisResult\<close>); \<open>now\<close> is \<open>new Date().toISOString()\<close>.
\<close>

definition analysisResult :: "string \<Rightarrow> string \<Rightarrow> string \<Rightarrow> AnalysisResult" where
  "analysisResult analysisText originalname now =
     \<lparr> documentType = extractDocumentType analysisText,
       projectInfo = \<lparr> title = extractProjectTitle analysisText,
                       fileName = originalname,
                       uploadDate = now,
                       scale = extractScale analysisText,
                       sheetNumber = extractSheetNumber analysisText \<rparr>,
       drawings = extractDrawings analysisText,
       generalNotes = extractNotes analysisText,
       keyFeatures = extractFeatures analysisText,
       materialsList = extractMaterials analysisText,
       structuralElements = extractStructuralElements analysisText,
       extractedText = analysisText \<rparr>"

section \<open>Fallback functions\<close>

text \<open>\<open>generateFallbackAnalysis\<close>; \<open>now\<close> is \<open>new Date().toISOString()\<close>.\<close>

definition generateFallbackAnalysis :: "string \<Rightarrow> string \<Rightarrow> AnalysisResult" where
  "generateFallbackAnalysis fileName' now =
     \<lparr> documentType = ''Architectural Drawing'',
       projectInfo = \<lparr> title = ''Architectural Project'',
                       fileName = fileName',
                       uploadDate = now,
                       scale = ''Various scales'',
                       sheetNumber = ''Not specified'' \<rparr>,
       drawings = [''Floor plans and elevations'',
                   ''Architectural details'',
                   ''Construction drawings''],
       generalNotes = [''Construction to comply with local building codes'',
                       ''All dimensions to be verified on site'',
                       ''Materials subject to approval''],
       keyFeatures = [''Architectural structure'',
                      ''Multiple rooms and spaces'',
                      ''Standard construction details'',
                      ''Building systems integration''],
       materialsList = [''Concrete'', ''Steel'', ''Wood'', ''Glass'', ''Brick''],
       structuralElements = \<lparr> floors = FloorsText ''Multiple levels'',
                              type = ''Building structure'',
                              foundation = Some ''Foundation system'' \<rparr>,
       extractedText = ''This architectural drawing shows a building design with multiple floors and standard construction details. The drawing includes floor plans, elevations, and construction specifications typical of architectural projects.'' \<rparr>"

text \<open>The decimal digits of a natural number.\<close>

fun showNat :: "nat \<Rightarrow> string" where
  "showNat n = (if n < 10 then [char_of (48 + n)] else showNat (n div 10) @ [char_of (48 + n mod 10)])"

text \<open>
  A number in a template literal is printed by \<open>Number::toString\<close>: with the fewest digits
  \<open>s\<close> (their number is \<open>k\<close>) and the exponent \<open>n\<close> such that \<open>s * 10^(n - k)\<close> rounds to
  the double, the nearest such \<open>s\<close> when there are several and the even one at a tie.
  For a double \<open>v\<close> with \<open>d\<close> decimal digits, the pairs \<open>(s, n)\<close> that can do this with
  \<open>k\<close> digits are the two multiples of \<open>10^(d - k)\<close> around \<open>v\<close> and, for one digit,
  \<open>10^d\<close> itself.
\<close>

definition digitCandidates :: "nat \<Rightarrow> nat \<Rightarrow> nat \<Rightarrow> (nat \<times> nat) list" where
  "digitCandidates v d k =
     filter (\<lambda>(s, n). 10 ^ (k - 1) \<le> s \<and> s < 10 ^ k \<and> roundToDouble (s * 10 ^ (n - k)) = Some v)
       ([(v div 10 ^ (d - k), d), (v div 10 ^ (d - k) + 1, d)] @ (if k = 1 then [(1, Suc d)] else []))"

definition distance :: "nat \<Rightarrow> nat \<Rightarrow> nat" where
  "distance a b = (if a \<le> b then b - a else a - b)"

fun nearest :: "nat \<Rightarrow> nat \<Rightarrow> (nat \<times> nat) \<Rightarrow> (nat \<times> nat) list \<Rightarrow> (nat \<times> nat)" where
  "nearest v k best [] = best"
| "nearest v k best (c # cs) =
     (let db = distance (fst best * 10 ^ (snd best - k)) v;
          dc = distance (fst c * 10 ^ (snd c - k)) v
      in nearest v k (if dc < db \<or> (dc = db \<and> even (fst c) \<and> odd (fst best)) then c else best) cs)"

text \<open>The digits \<open>s\<close>, their number \<open>k\<close> and the exponent \<open>n\<close> of a double \<open>v\<close>.\<close>

definition shortestDigits :: "nat \<Rightarrow> (nat \<times> nat \<times> nat) option" where
  "shortestDigits v =
     (let d = length (showNat v)
      in case find (\<lambda>k. digitCandidates v d k \<noteq> []) [1..<Suc d] of
           None \<Rightarrow> None
         | Some k \<Rightarrow> (case digitCandidates v d k of
                        [] \<Rightarrow> None
                      | c # cs \<Rightarrow> (case nearest v k c cs of (s, n) \<Rightarrow> Some (s, k, n))))"

text \<open>
  \<open>Number::toString\<close> on a double whose value is the natural number \<open>v\<close>: the digits
  followed by zeros up to \<open>n = 21\<close>, the exponent form beyond. \<open>shortestDigits\<close> finds
  digits for every double but zero; its \<open>None\<close> is met only when \<open>v\<close> is no double.
\<close>

definition numberToString :: "nat \<Rightarrow> string" where
  "numberToString v =
     (case shortestDigits v of
        None \<Rightarrow> showNat v
      | Some (s, k, n) \<Rightarrow>
          if n \<le> 21 then showNat s @ replicate (n - k) (CHR ''0'')
          else (case showNat s of
                  [] \<Rightarrow> []
                | c # cs \<Rightarrow> (if cs = [] then [c] else c # ''.'' @ cs) @ ''e+'' @ showNat (n - 1)))"

definition showFloors :: "Floors \<Rightarrow> string" where
  "showFloors f = (case f of FloorsNumber n \<Rightarrow> numberToString n
                           | FloorsInfinity \<Rightarrow> ''Infinity''
                           | FloorsText s \<Rightarrow> s)"

text \<open>\<open>generateFallbackAnswer\<close>: five templates behind an \<open>if / else if\<close> chain.\<close>

definition generateFallbackAnswer :: "string \<Rightarrow> AnalysisResult \<Rightarrow> string" where
  "generateFallbackAnswer question analysis =
     (let questionLower = toLowerCase question in
      if str_includes questionLower ''floor'' \<or> str_includes questionLower ''story''
         \<or> str_includes questionLower ''level'' then
        ''Based on the architectural drawing analysis, this building has '' @
        showFloors (floors (structuralElements analysis)) @
        '' floors. The structure is designed as a '' @
        type (structuralElements analysis) @ ''.''
      else if str_includes questionLower ''material'' \<or> str_includes questionLower ''construction'' then
        ''The materials specified in this project include: '' @
        join '', '' (materialsList analysis) @
        ''. The construction uses '' @
        type (structuralElements analysis) @ '' methods.''
      else if str_includes questionLower ''room'' \<or> str_includes questionLower ''space''
              \<or> str_includes questionLower ''layout'' then
        ''The building layout includes: '' @
        join '', '' (keyFeatures analysis) @
        ''. The design shows '' @
        documentType analysis @ '' with various architectural spaces.''
      else if str_includes questionLower ''drawing'' \<or> str_includes questionLower ''plan'' then
        ''This document contains: '' @
        join '', '' (drawings analysis) @
        ''. The main drawing type is '' @
        documentType analysis @ ''.''
      else
        ''Based on the architectural drawing analysis, this is a '' @
        documentType analysis @
        ''. Key features include: '' @
        join '', '' (take 3 (keyFeatures analysis)) @
        ''. The structure has '' @
        showFloors (floors (structuralElements analysis)) @
        '' floors and uses materials like '' @
        join '', '' (take 3 (materialsList analysis)) @ ''.'')"

section \<open>The analysis cache\<close>

text \<open>
  \<open>analysisCache\<close> is a \<open>Map<string, AnalysisResult>\<close>, created empty; the handlers only
  call \<open>set\<close> and \<open>get\<close> on it.
\<close>

type_synonym Cache = "string \<rightharpoonup> AnalysisResult"

definition newCache :: Cache where
  "newCache = Map.empty"

definition cache_set :: "string \<Rightarrow> AnalysisResult \<Rightarrow> Cache \<Rightarrow> Cache" where
  "cache_set k r cache = cache(k \<mapsto> r)"

definition cache_get :: "Cache \<Rightarrow> string \<Rightarrow> AnalysisResult option" where
  "cache_get cache k = cache k"

text \<open>A history of the cache: the calls of \<open>set\<close> made so far, oldest first.\<close>

fun cache_sets :: "(string \<times> AnalysisResult) list \<Rightarrow> Cache \<Rightarrow> Cache" where
  "cache_sets [] cache = cache"
| "cache_sets ((k, r) # calls) cache = cache_sets calls (cache_set k r cache)"

section \<open>The model gateway and the two handlers\<close>

text \<open>
  What a handler receives from outside while it runs. \<open>ollama.list()\<close> is called once by
  \<open>checkOllamaStatus\<close> and once more by the handler, and the two calls may differ:
  \<open>statusList\<close> and \<open>handlerList\<close> are the model names of each, \<open>None\<close> when the call
  is rejected. \<open>generate\<close> is \<open>ollama.generate\<close>, \<open>None\<close> when it is rejected, and
  \<open>readImage\<close> is \<open>encodeImageToBase64\<close>, \<open>None\<close> when reading the file throws.
  \<open>clock\<close> is \<open>new Date().toISOString()\<close>.
\<close>

record GenerateRequest =
  model :: string
  prompt :: string
  images :: "string list option"

record Env =
  statusList :: "string list option"
  handlerList :: "string list option"
  generate :: "GenerateRequest \<Rightarrow> string option"
  readImage :: "string \<Rightarrow> string option"
  clock :: string

definition hasLlama :: "string \<Rightarrow> bool" where
  "hasLlama name = (str_includes (toLowerCase name) ''llama3.2''
                    \<or> str_includes (toLowerCase name) ''llama''
                    \<or> str_includes (toLowerCase name) ''llava'')"

text \<open>\<open>checkOllamaStatus\<close>: a rejected \<open>list\<close> is caught and gives \<open>false\<close>.\<close>

definition checkOllamaStatus :: "Env \<Rightarrow> bool" where
  "checkOllamaStatus env = (case statusList env of None \<Rightarrow> False | Some models \<Rightarrow> list_ex hasLlama models)"

definition isVisionModel :: "string \<Rightarrow> bool" where
  "isVisionModel name = (str_includes (toLowerCase name) ''llava''
                         \<or> str_includes (toLowerCase name) ''vision'')"

definition isTextModel :: "string \<Rightarrow> bool" where
  "isTextModel name = (str_includes (toLowerCase name) ''gemma3''
                       \<or> str_includes (toLowerCase name) ''llama3.2''
                       \<or> str_includes (toLowerCase name) ''llama'')"

record UploadedFile =
  filename :: string
  originalname :: string
  mimetype :: string
  path :: string

datatype Tag = Note string | AiProvider string

text \<open>
  The JSON answers of the two handlers: an error with its HTTP status, its \<open>error\<close> text and
  its other fields, or \<open>success: true\<close> with the payload and either a \<open>note\<close> or an
  \<open>aiProvider\<close>.
\<close>

datatype Response =
    ErrorResponse nat string "(string \<times> string) list"
  | UploadResponse string AnalysisResult Tag
  | ChatResponse string Tag

definition visionPrompt :: string where
  "visionPrompt = join [newline]
     [''Analyze this architectural drawing in detail. Please provide a comprehensive analysis including:'',
      [],
      ''1. **Document Type**: What type of architectural drawing is this?'',
      ''2. **Project Information**: Any visible project details, titles, or identification'',
      ''3. **Drawings/Plans**: List all elevations, plans, sections, or details shown'',
      ''4. **General Notes**: Any construction notes, specifications, or requirements'',
      ''5. **Key Features**: Important architectural elements and design features'',
      ''6. **Materials**: Building materials mentioned or shown'',
      ''7. **Structural Elements**: Number of floors, building type, structural system'',
      ''8. **Readable Text**: Any text, labels, or dimensions you can identify'',
      [],
      ''Please be specific about what you can observe in the drawing and focus on details that would help someone understand this architectural design.'']"

definition textPrompt :: "string \<Rightarrow> string" where
  "textPrompt originalname' = join [newline]
     [''I have an architectural drawing file named '' @ [dquote] @ originalname' @ [dquote] @
        ''. Based on typical architectural drawings, please provide a general analysis that includes:'',
      [],
      ''1. Common elements found in architectural drawings'',
      ''2. Typical project information structure'',
      ''3. Standard drawing types (elevations, plans, sections)'',
      ''4. Common construction notes and specifications'',
      ''5. Typical building materials'',
      ''6. Standard structural elements'',
      [],
      ''Please provide a comprehensive template analysis that would be typical for an architectural drawing.'']"

definition generalAnalysisNote :: string where
  "generalAnalysisNote = [newline, newline] @
     ''Note: This is a general analysis. For detailed image analysis, please install LLaVA model with: ollama pull llava''"

text \<open>
  The inner \<open>try\<close> block of the upload handler: \<open>Some\<close> the text of the analysis, or \<open>None\<close>
  when anything in the block throws (a rejected \<open>list\<close> or \<open>generate\<close>, a file that cannot
  be read, or \<open>No suitable model found\<close>).
\<close>

definition analysisText :: "Env \<Rightarrow> UploadedFile \<Rightarrow> string option" where
  "analysisText env file =
     (case handlerList env of
        None \<Rightarrow> None
      | Some models \<Rightarrow>
          (case find isVisionModel models of
             Some visionModel \<Rightarrow>
               (case readImage env (path file) of
                  None \<Rightarrow> None
                | Some imageBase64 \<Rightarrow>
                    generate env \<lparr> model = visionModel, prompt = visionPrompt,
                                   images = Some [imageBase64] \<rparr>)
           | None \<Rightarrow>
               (case find isTextModel models of
                  Some textModel \<Rightarrow>
                    map_option (\<lambda>response. response @ generalAnalysisNote)
                      (generate env \<lparr> model = textModel, prompt = textPrompt (originalname file),
                                      images = None \<rparr>)
                | None \<Rightarrow> None)))"

text \<open>
  \<open>app.post('/api/upload')\<close>: the new cache and the answer. \<open>file\<close> is \<open>req.file\<close>,
  \<open>None\<close> when no file was uploaded. The outer \<open>catch\<close> of the handler has no branch
  here: outside the inner \<open>try\<close> nothing throws on values of these types
  (\<open>checkOllamaStatus\<close> catches its own error).
\<close>

definition upload :: "Env \<Rightarrow> Cache \<Rightarrow> UploadedFile option \<Rightarrow> Cache \<times> Response" where
  "upload env cache file =
     (case file of
        None \<Rightarrow> (cache, ErrorResponse 400 ''No file uploaded'' [])
      | Some f \<Rightarrow>
          if \<not> checkOllamaStatus env then
            (cache, ErrorResponse 500 ''Ollama is not running or no suitable model found''
                      [(''suggestion'', ''Please start Ollama and ensure you have llama3.2 or llava model installed'')])
          else if startsWith (mimetype f) ''image/'' then
            (case analysisText env f of
               None \<Rightarrow>
                 (let fallbackAnalysis = generateFallbackAnalysis (originalname f) (clock env)
                  in (cache_set (filename f) fallbackAnalysis cache,
                      UploadResponse (filename f) fallbackAnalysis
                        (Note ''Using fallback analysis - please ensure Ollama is running with llava model for image analysis'')))
             | Some text \<Rightarrow>
                 (let result = analysisResult text (originalname f) (clock env)
                  in (cache_set (filename f) result cache,
                      UploadResponse (filename f) result (AiProvider ''Local Llama 3.2''))))
          else (cache, ErrorResponse 400 ''Only image files are supported'' []))"










section \<open>Facts about characters and strings\<close>

lemma code_eq_iff: "(code c = code d) = (c = d)"
  by (simp add: code_def)

lemma code_toLowerChar: "code (toLowerChar c) = (if isUpper c then code c + 32 else code c)"
  by (auto simp: toLowerChar_def isUpper_def code_def)

lemma isSpace_toLowerChar: "isSpace (toLowerChar c) = isSpace c"
  by (auto simp: isSpace_def code_toLowerChar isUpper_def)

lemma not_isUpper_toLowerChar: "\<not> isUpper (toLowerChar c)"
  by (auto simp: isUpper_def code_toLowerChar)

lemma toLowerChar_eq_newline: "(toLowerChar c = newline) = (c = newline)"
proof -
  have n: "code newline = 10"
    by (simp add: code_def newline_def)
  have "(code (toLowerChar c) = code newline) = (code c = code newline)"
    unfolding n by (auto simp: code_toLowerChar isUpper_def)
  then show ?thesis
    by (simp add: code_eq_iff)
qed

lemma toLowerChar_eq_colon: "(toLowerChar c = CHR '':'') = (c = CHR '':'')"
proof -
  have n: "code (CHR '':'') = 58"
    by (simp add: code_def)
  have "(code (toLowerChar c) = code (CHR '':'')) = (code c = code (CHR '':''))"
    unfolding n by (auto simp: code_toLowerChar isUpper_def)
  then show ?thesis
    by (simp add: code_eq_iff)
qed

lemma toLowerCase_eq_Nil: "(toLowerCase s = []) = (s = [])"
  by (simp add: toLowerCase_def)

lemma startsWith_append: "startsWith (p @ s) p"
  by (induction p) auto

lemma str_includes_prefix: "startsWith s sub \<Longrightarrow> str_includes s sub"
  by (cases s) auto

lemma str_includes_append_left: "str_includes s sub \<Longrightarrow> str_includes (pre @ s) sub"
  by (induction pre) auto

lemma str_includes_middle: "str_includes (pre @ sub @ post) sub"
  by (simp add: str_includes_append_left str_includes_prefix startsWith_append)

lemma split_on_nonempty: "split_on sep s \<noteq> []"
  by (induction s) (auto split: list.splits)

text \<open>Splitting commutes with a map on characters that neither makes nor removes separators.\<close>

lemma split_on_map:
  assumes "\<And>x. (f x = sep) = (x = sep)"
  shows "split_on sep (map f s) = map (map f) (split_on sep s)"
proof (induction s)
  case Nil
  show ?case by simp
next
  case (Cons c cs)
  show ?case
  proof (cases "split_on sep cs")
    case Nil
    then show ?thesis
      using split_on_nonempty by blast
  next
    case (Cons p ps)
    then show ?thesis
      using Cons.IH assms by simp
  qed
qed

lemma split_newline_toLowerCase:
  "split_on newline (toLowerCase s) = map toLowerCase (split_on newline s)"
  unfolding toLowerCase_def
  by (rule HOL.trans[OF split_on_map[where f = toLowerChar, OF toLowerChar_eq_newline]])
     (simp add: toLowerCase_def[abs_def])

lemma split_colon_toLowerCase:
  "split_on (CHR '':'') (toLowerCase s) = map toLowerCase (split_on (CHR '':'') s)"
  unfolding toLowerCase_def
  by (rule HOL.trans[OF split_on_map[where f = toLowerChar, OF toLowerChar_eq_colon]])
     (simp add: toLowerCase_def[abs_def])

lemma dropWhile_isSpace_lower:
  "dropWhile isSpace (map toLowerChar s) = map toLowerChar (dropWhile isSpace s)"
  by (induction s) (auto simp: isSpace_toLowerChar)

lemma trim_toLowerCase: "trim (toLowerCase s) = toLowerCase (trim s)"
  by (simp add: trim_def toLowerCase_def dropWhile_isSpace_lower rev_map)

lemma find_map_eq: "find P (map f xs) = map_option f (find (\<lambda>x. P (f x)) xs)"
  by (induction xs) auto

lemma at_index_map: "at_index (map f xs) i = map_option f (at_index xs i)"
  by (induction xs i rule: at_index.induct) auto

lemma cache_sets_other:
  "k \<notin> fst ` set calls \<Longrightarrow> cache_get (cache_sets calls cache) k = cache_get cache k"
  by (induction calls arbitrary: cache) (auto simp: cache_get_def cache_set_def)

section \<open>Facts about the material vocabulary\<close>

lemma capitalized_distinct: "distinct (map capitalize commonMaterials)"
  by code_simp

lemma placeholder_not_capitalized: "''Building materials specified'' \<notin> set (map capitalize commonMaterials)"
  by code_simp

lemma keywords_not_capitalized: "list_all (\<lambda>m. m \<notin> set (map capitalize commonMaterials)) commonMaterials"
  by code_simp

lemma placeholder_not_keyword: "''Building materials specified'' \<notin> set commonMaterials"
  by code_simp

lemma count_list_distinct: "distinct xs \<Longrightarrow> count_list xs x = (if x \<in> set xs then 1 else 0)"
  by (induction xs) auto

lemma extractMaterials_cases:
  "extractMaterials text =
     (if filter (\<lambda>m. str_includes (toLowerCase text) m) commonMaterials = []
      then [''Building materials specified'']
      else map capitalize (filter (\<lambda>m. str_includes (toLowerCase text) m) commonMaterials))"
  by (simp add: extractMaterials_def Let_def)

lemma extractMaterials_distinct: "distinct (extractMaterials text)"
  by (simp add: extractMaterials_cases distinct_map_filter[OF capitalized_distinct])

lemma capitalized_mem:
  assumes "m \<in> set commonMaterials"
  shows "(capitalize m \<in> set (extractMaterials text)) = str_includes (toLowerCase text) m"
proof -
  let ?P = "\<lambda>m. str_includes (toLowerCase text) m"
  have inj: "inj_on capitalize (set commonMaterials)"
    using capitalized_distinct by (simp add: distinct_map)
  have "capitalize m \<in> set (map capitalize commonMaterials)"
    using assms by simp
  with placeholder_not_capitalized have ph: "capitalize m \<noteq> ''Building materials specified''"
    by metis
  have in_ms: "(capitalize m \<in> set (map capitalize (filter ?P commonMaterials))) = ?P m"
  proof
    assume "capitalize m \<in> set (map capitalize (filter ?P commonMaterials))"
    then obtain m' where m': "m' \<in> set commonMaterials" "?P m'" "capitalize m' = capitalize m"
      by auto
    with inj assms have "m' = m"
      by (auto dest: inj_onD)
    with m' show "?P m" by simp
  next
    assume "?P m"
    with assms show "capitalize m \<in> set (map capitalize (filter ?P commonMaterials))"
      by auto
  qed
  show ?thesis
  proof (cases "filter ?P commonMaterials = []")
    case True
    then have "\<not> ?P m"
      using assms by (auto simp: filter_empty_conv)
    with True ph show ?thesis
      by (simp add: extractMaterials_cases)
  next
    case False
    then show ?thesis
      using in_ms by (simp add: extractMaterials_cases)
  qed
qed

lemma keyword_not_mem:
  assumes "m \<in> set commonMaterials"
  shows "m \<notin> set (extractMaterials text)"
proof -
  have a: "m \<notin> set (map capitalize commonMaterials)"
    using keywords_not_capitalized assms by (simp add: list_all_iff)
  have b: "m \<noteq> ''Building materials specified''"
    using placeholder_not_keyword assms by auto
  have "set (map capitalize (filter (\<lambda>m. str_includes (toLowerCase text) m) commonMaterials))
          \<subseteq> set (map capitalize commonMaterials)"
    by auto
  with a b show ?thesis
    by (auto simp: extractMaterials_cases)
qed

section \<open>Fields that are never blank\<close>

lemma trim_nonblank: "trim s \<noteq> [] \<Longrightarrow> \<not> list_all isSpace (trim s)"
proof -
  assume ne: "trim s \<noteq> []"
  let ?d = "dropWhile isSpace (rev (dropWhile isSpace s))"
  from ne have d: "?d \<noteq> []"
    by (simp add: trim_def)
  then have "\<not> isSpace (hd ?d)"
    by (rule hd_dropWhile)
  moreover from d have "hd ?d \<in> set ?d"
    by simp
  ultimately show ?thesis
    unfolding trim_def list_all_iff set_rev by blast
qed

lemma or_default_trim_nonblank:
  assumes "d \<noteq> []" and "\<not> list_all isSpace d"
  shows "or_default (map_option trim v) d \<noteq> [] \<and> \<not> list_all isSpace (or_default (map_option trim v) d)"
  using assms by (cases v) (auto simp: or_default_def trim_nonblank)

lemma greedy_result:
  "greedy p k acc s = Some g \<Longrightarrow> \<exists>acc' s'. k acc' s' = Some g"
  by (induction s arbitrary: acc) (auto split: if_splits option.splits)

lemma greedy_group: "greedy p (\<lambda>g _. Some g) acc s = Some (acc @ takeWhile p s)"
  by (induction s arbitrary: acc) auto

lemma greedy1_group:
  "greedy1 p (\<lambda>g _. Some g) s = Some g \<Longrightarrow> g \<noteq> [] \<and> list_all p g"
  by (cases s) (auto simp: greedy1_def greedy_group list_all_iff split: if_splits dest: set_takeWhileD)

lemma search_result: "search m s = Some g \<Longrightarrow> \<exists>s'. m s' = Some g"
  by (induction s) (auto split: option.splits)

lemma sheetAt_group: "sheetAt s = Some g \<Longrightarrow> g \<noteq> [] \<and> list_all sheetClass g"
  unfolding sheetAt_def
  by (auto split: option.splits dest!: greedy_result greedy1_group)

lemma sheetClass_not_space: "sheetClass c \<Longrightarrow> \<not> isSpace c"
proof -
  have "code (CHR ''-'') = 45" "code (CHR ''.'') = 46"
    by (simp_all add: code_def)
  then show "sheetClass c \<Longrightarrow> \<not> isSpace c"
    by (auto simp: sheetClass_def isSpace_def isDigit_def)
qed

lemma trim_no_space: "list_all (\<lambda>c. \<not> isSpace c) g \<Longrightarrow> trim g = g"
proof (cases g rule: rev_cases)
  case Nil
  then show ?thesis by (simp add: trim_def)
next
  case (snoc ys y)
  assume a: "list_all (\<lambda>c. \<not> isSpace c) g"
  have 1: "dropWhile isSpace g = g"
    using a by (cases g) auto
  have 2: "dropWhile isSpace (rev g) = rev g"
    using a snoc by simp
  show ?thesis
    by (simp add: trim_def 1 2)
qed

lemma extractSheetNumber_nonblank:
  "extractSheetNumber text \<noteq> [] \<and> \<not> list_all isSpace (extractSheetNumber text)"
proof (cases "search sheetAt text")
  case None
  have "\<not> list_all isSpace ''Not specified''"
    by code_simp
  with None show ?thesis
    by (simp add: extractSheetNumber_def)
next
  case (Some g)
  then obtain s' where "sheetAt s' = Some g"
    by (auto dest: search_result)
  then have g: "g \<noteq> []" "list_all sheetClass g"
    by (auto dest: sheetAt_group)
  then have ns: "list_all (\<lambda>c. \<not> isSpace c) g"
    by (auto simp: list_all_iff sheetClass_not_space)
  then have "trim g = g"
    by (rule trim_no_space)
  moreover from g(1) ns have "\<not> list_all isSpace g"
    by (cases g) auto
  ultimately show ?thesis
    using Some g(1) by (simp add: extractSheetNumber_def)
qed

lemma extractDocumentType_nonblank:
  "extractDocumentType text \<noteq> [] \<and> \<not> list_all isSpace (extractDocumentType text)"
proof -
  have c: "\<not> list_all isSpace ''Architectural Drawing''" "\<not> list_all isSpace ''Floor Plan''"
    "\<not> list_all isSpace ''Building Elevation''" "\<not> list_all isSpace ''Building Section''"
    by code_simp+
  show ?thesis
  proof (cases "find isTypeLabelLine (split_on newline (toLowerCase text))")
    case None
    then show ?thesis
      using c by (simp add: extractDocumentType_def)
  next
    case (Some line)
    then show ?thesis
      using or_default_trim_nonblank [of "''Architectural Drawing''"] c(1)
      by (simp add: extractDocumentType_def)
  qed
qed

lemma extractProjectTitle_nonblank:
  "extractProjectTitle text \<noteq> [] \<and> \<not> list_all isSpace (extractProjectTitle text)"
proof -
  have c: "\<not> list_all isSpace ''Architectural Project''"
    by code_simp
  show ?thesis
  proof (cases "find isTitleLine (split_on newline text)")
    case None
    then show ?thesis
      using c by (simp add: extractProjectTitle_def)
  next
    case (Some line)
    then show ?thesis
      using or_default_trim_nonblank [of "''Architectural Project''"] c
      by (simp add: extractProjectTitle_def)
  qed
qed

lemma extracted_lists_nonempty:
  "extractDrawings text \<noteq> []" "extractNotes text \<noteq> []" "extractFeatures text \<noteq> []"
  "extractMaterials text \<noteq> []"
  by (simp_all add: extractDrawings_def extractNotes_def extractFeatures_def extractMaterials_def Let_def)

text \<open>
  All fields of the claim but \<open>scale\<close>: the four lists have an element, and the document
  type, the title and the sheet number have a character that is not white space.
\<close>

lemma analysisResult_other_fields_nonempty:
  "drawings (analysisResult text name now) \<noteq> []
   \<and> generalNotes (analysisResult text name now) \<noteq> []
   \<and> keyFeatures (analysisResult text name now) \<noteq> []
   \<and> materialsList (analysisResult text name now) \<noteq> []
   \<and> \<not> list_all isSpace (documentType (analysisResult text name now))
   \<and> \<not> list_all isSpace (title (projectInfo (analysisResult text name now)))
   \<and> \<not> list_all isSpace (sheetNumber (projectInfo (analysisResult text name now)))"
  by (simp add: analysisResult_def extracted_lists_nonempty extractDocumentType_nonblank
        extractProjectTitle_nonblank extractSheetNumber_nonblank)

section \<open>Facts about numbers and the structural elements\<close>

lemma digit_chars:
  "char_of (48::nat) = CHR ''0''" "char_of (49::nat) = CHR ''1''" "char_of (50::nat) = CHR ''2''"
  "char_of (51::nat) = CHR ''3''" "char_of (52::nat) = CHR ''4''" "char_of (53::nat) = CHR ''5''"
  "char_of (54::nat) = CHR ''6''" "char_of (55::nat) = CHR ''7''" "char_of (56::nat) = CHR ''8''"
  "char_of (57::nat) = CHR ''9''"
  by code_simp+

text \<open>
  The numbers of the extractor in three places: a small one is kept and printed as it is,
  the digits of \<open>2^53 + 1\<close> give the even neighbour, and \<open>2^60\<close> is printed with its
  sixteen shortest digits.
\<close>

lemma roundToDouble_exact: "n < 2 ^ 53 \<Longrightarrow> roundToDouble n = Some n"
  by (simp add: roundToDouble_def)

lemma parseInt_tie: "parseInt ''9007199254740993'' = Some 9007199254740992"
  by (simp add: parseInt_def decimalValue_def roundToDouble_def code_def Let_def)

lemma numberToString_3: "numberToString 3 = ''3''"
proof -
  have s: "showNat 3 = ''3''"
    by (simp add: digit_chars)
  have c: "digitCandidates 3 (Suc 0) (Suc 0) = [(3, Suc 0)]"
    by (simp add: digitCandidates_def roundToDouble_def)
  have "shortestDigits 3 = Some (3, 1, 1)"
    by (simp add: shortestDigits_def s c)
  then show ?thesis
    by (simp add: numberToString_def s digit_chars)
qed

lemma find_sixteenth:
  assumes "P (Suc 0) = False" "P 2 = False" "P 3 = False" "P 4 = False" "P 5 = False"
    "P 6 = False" "P 7 = False" "P 8 = False" "P 9 = False" "P 10 = False" "P 11 = False"
    "P 12 = False" "P 13 = False" "P 14 = False" "P 15 = False" and "P 16 = True"
  shows "find P [1..<Suc 19] = Some (16::nat)"
proof -
  have u: "[1..<Suc 19] = [1, 2, 3, 4, 5, 6, 7, 8, 9, 10, 11, 12, 13, 14, 15, 16, 17, 18, 19]"
    by code_simp
  show ?thesis
    unfolding u by (simp add: assms)
qed

lemma shortestDigits_2_60:
  "shortestDigits 1152921504606846976 = Some (1152921504606847, 16, 19)"
proof -
  let ?v = "1152921504606846976 :: nat"
  have s: "showNat ?v = ''1152921504606846976''"
    by (simp add: digit_chars)
  have e: "digitCandidates ?v 19 (Suc 0) = []" "digitCandidates ?v 19 2 = []"
    "digitCandidates ?v 19 3 = []" "digitCandidates ?v 19 4 = []"
    "digitCandidates ?v 19 5 = []" "digitCandidates ?v 19 6 = []"
    "digitCandidates ?v 19 7 = []" "digitCandidates ?v 19 8 = []"
    "digitCandidates ?v 19 9 = []" "digitCandidates ?v 19 10 = []"
    "digitCandidates ?v 19 11 = []" "digitCandidates ?v 19 12 = []"
    "digitCandidates ?v 19 13 = []" "digitCandidates ?v 19 14 = []"
    "digitCandidates ?v 19 15 = []"
    by (simp_all add: digitCandidates_def roundToDouble_def Let_def)
  have c: "digitCandidates ?v 19 16 = [(1152921504606847, 19)]"
    by (simp add: digitCandidates_def roundToDouble_def Let_def)
  have f: "find (\<lambda>k. digitCandidates ?v 19 k \<noteq> []) [1..<Suc 19] = Some 16"
    by (rule find_sixteenth) (simp_all add: e c)
  have l: "length (showNat ?v) = 19"
    unfolding s by simp
  show ?thesis
    unfolding shortestDigits_def l Let_def f by (simp add: c)
qed

lemma numberToString_2_60: "numberToString 1152921504606846976 = ''1152921504606847000''"
proof -
  have r: "replicate 3 (CHR ''0'') = ''000''"
    by code_simp
  show ?thesis
    unfolding numberToString_def shortestDigits_2_60 by (simp add: digit_chars r)
qed

lemma parseInt_3: "parseInt ''3'' = Some 3"
  by (simp add: parseInt_def decimalValue_def roundToDouble_def code_def)

lemma extractStructuralElements_type:
  "type (extractStructuralElements text) =
     (if str_includes (toLowerCase text) ''house'' then ''House''
      else if str_includes (toLowerCase text) ''office'' then ''Office building''
      else if str_includes (toLowerCase text) ''commercial'' then ''Commercial structure''
      else if str_includes (toLowerCase text) ''residential'' then ''Residential structure''
      else ''Building structure'')"
  by (simp add: extractStructuralElements_def Let_def)

lemma three_story_results:
  "extractStructuralElements ''This residential 3-story building...''
     = \<lparr> floors = FloorsText ''Not specified'', type = ''Residential structure'', foundation = None \<rparr>"
  "extractStructuralElements ''This residential 3 story building...''
     = \<lparr> floors = FloorsNumber 3, type = ''Residential structure'', foundation = None \<rparr>"
proof -
  have m: "search floorAt ''This residential 3-story building...'' = None"
    "search floorAt ''This residential 3 story building...'' = Some ''3''"
    by code_simp+
  have k1: "str_includes (toLowerCase ''This residential 3-story building...'') ''residential''"
    "\<not> str_includes (toLowerCase ''This residential 3-story building...'') ''commercial''"
    "\<not> str_includes (toLowerCase ''This residential 3-story building...'') ''office''"
    "\<not> str_includes (toLowerCase ''This residential 3-story building...'') ''house''"
    "\<not> str_includes (toLowerCase ''This residential 3-story building...'') ''foundation''"
    by code_simp+
  have k2: "str_includes (toLowerCase ''This residential 3 story building...'') ''residential''"
    "\<not> str_includes (toLowerCase ''This residential 3 story building...'') ''commercial''"
    "\<not> str_includes (toLowerCase ''This residential 3 story building...'') ''office''"
    "\<not> str_includes (toLowerCase ''This residential 3 story building...'') ''house''"
    "\<not> str_includes (toLowerCase ''This residential 3 story building...'') ''foundation''"
    by code_simp+
  show "extractStructuralElements ''This residential 3-story building...''
     = \<lparr> floors = FloorsText ''Not specified'', type = ''Residential structure'', foundation = None \<rparr>"
    unfolding extractStructuralElements_def Let_def m using k1 by simp
  show "extractStructuralElements ''This residential 3 story building...''
     = \<lparr> floors = FloorsNumber 3, type = ''Residential structure'', foundation = None \<rparr>"
    unfolding extractStructuralElements_def Let_def m using k2 parseInt_3 by simp
qed

section \<open>The extractor\<close>

text \<open>
  C1. Every field of the record produced by the extractor is non-empty: each list has an
  element and each of \<open>documentType\<close>, \<open>title\<close>, \<open>scale\<close> and \<open>sheetNumber\<close> is a
  non-blank string. The code breaks this for \<open>scale\<close>: on the text \<open>Scale: not shown\<close>
  the regular expression gives back the space after the colon so that its group can match
  it, and the trimmed group is the empty string. The placeholder \<open>Not specified\<close> is only
  used when the expression does not match at all. The other fields are as the claim says
  (\<open>analysisResult_other_fields_nonempty\<close>).
\<close>

theorem analysisResult_scale_empty:
  "scale (projectInfo (analysisResult ''Scale: not shown'' name now)) = []"
proof -
  have "extractScale ''Scale: not shown'' = []"
    by code_simp
  then show ?thesis
    by (simp add: analysisResult_def)
qed

text \<open>
  C3, as the spec states it: \<open>extractStructuralElements\<close> on
  \<open>This residential 3-story building...\<close> gives floors 3, the type
  \<open>Residential structure\<close> and no foundation. The code does not return that record.
\<close>

theorem extractStructuralElements_3_story_counterexample:
  "extractStructuralElements ''This residential 3-story building...''
     \<noteq> \<lparr> floors = FloorsNumber 3, type = ''Residential structure'', foundation = None \<rparr>"
  by (simp add: three_story_results)

text \<open>
  C3, amended. The expression allows only white space between the digits and the word, so
  the hyphen of \<open>3-story\<close> stops the match and \<open>floors\<close> is \<open>Not specified\<close>; the type and
  the absent foundation are as stated. With a space in place of the hyphen the floors are
  the number 3.
\<close>

theorem extractStructuralElements_3_story:
  "extractStructuralElements ''This residential 3-story building...''
     = \<lparr> floors = FloorsText ''Not specified'', type = ''Residential structure'', foundation = None \<rparr>
   \<and> extractStructuralElements ''This residential 3 story building...''
     = \<lparr> floors = FloorsNumber 3, type = ''Residential structure'', foundation = None \<rparr>"
  by (simp add: three_story_results)

text \<open>
  C4, as the spec states it: of the keywords \<open>residential\<close>, \<open>commercial\<close>, \<open>office\<close>,
  \<open>house\<close> the earliest one found decides the type, so a text with \<open>residential\<close> and
  \<open>house\<close> is a \<open>Residential structure\<close>. It is a \<open>House\<close>.
\<close>

theorem building_type_first_match_counterexample:
  "str_includes (toLowerCase ''Residential house'') ''residential''
   \<and> str_includes (toLowerCase ''Residential house'') ''house''
   \<and> type (extractStructuralElements ''Residential house'') = ''House''
   \<and> type (extractStructuralElements ''Residential house'') \<noteq> ''Residential structure''"
proof -
  have "str_includes (toLowerCase ''Residential house'') ''residential''"
    and "str_includes (toLowerCase ''Residential house'') ''house''"
    by code_simp+
  then show ?thesis
    by (simp add: extractStructuralElements_type)
qed

text \<open>
  C4, amended. The four tests assign in turn, so the last keyword of the list that occurs
  in the text decides: \<open>house\<close> before \<open>office\<close> before \<open>commercial\<close> before
  \<open>residential\<close>, and \<open>Building structure\<close> when none occurs.
\<close>

theorem building_type_last_match_wins:
  "type (extractStructuralElements text) =
     (if str_includes (toLowerCase text) ''house'' then ''House''
      else if str_includes (toLowerCase text) ''office'' then ''Office building''
      else if str_includes (toLowerCase text) ''commercial'' then ''Commercial structure''
      else if str_includes (toLowerCase text) ''residential'' then ''Residential structure''
      else ''Building structure'')"
  by (simp add: extractStructuralElements_def Let_def)

theorem building_type_last_match_wins_witness:
  "type (extractStructuralElements ''Offices in a commercial block'') = ''Office building''"
proof -
  have "\<not> str_includes (toLowerCase ''Offices in a commercial block'') ''house''"
    and "str_includes (toLowerCase ''Offices in a commercial block'') ''office''"
    by code_simp+
  then show ?thesis
    using building_type_last_match_wins [of "''Offices in a commercial block''"] by simp
qed

text \<open>
  C10. When the first line that carries a \<open>document type\<close> or \<open>type of drawing\<close> label
  (in any casing) has a non-blank value between its first colon and the next one, the
  document type is that value, trimmed and lower-cased, whatever its casing in the text:
  no upper-case letter is left in it.
\<close>

theorem extractDocumentType_label_lowercased:
  assumes "find (\<lambda>l. isTypeLabelLine (toLowerCase l)) (split_on newline text) = Some line"
    and "at_index (split_on (CHR '':'') line) 1 = Some v"
    and "trim v \<noteq> []"
  shows "extractDocumentType text = toLowerCase (trim v)
         \<and> list_all (\<lambda>c. \<not> isUpper c) (extractDocumentType text)"
proof -
  have found: "find isTypeLabelLine (split_on newline (toLowerCase text)) = Some (toLowerCase line)"
    unfolding split_newline_toLowerCase find_map_eq using assms(1) by simp
  have val: "at_index (split_on (CHR '':'') (toLowerCase line)) 1 = Some (toLowerCase v)"
    unfolding split_colon_toLowerCase at_index_map using assms(2) by simp
  have res: "extractDocumentType text = toLowerCase (trim v)"
    unfolding extractDocumentType_def found
    using assms(3) val by (simp add: or_default_def trim_toLowerCase toLowerCase_eq_Nil)
  have "list_all (\<lambda>c. \<not> isUpper c) (toLowerCase (trim v))"
    by (simp add: toLowerCase_def list_all_iff not_isUpper_toLowerChar)
  with res show ?thesis
    by simp
qed

theorem extractDocumentType_label_lowercased_witness:
  "find (\<lambda>l. isTypeLabelLine (toLowerCase l)) (split_on newline ''Document Type: Site Plan'')
     = Some ''Document Type: Site Plan''
   \<and> at_index (split_on (CHR '':'') ''Document Type: Site Plan'') 1 = Some '' Site Plan''
   \<and> trim '' Site Plan'' \<noteq> []
   \<and> extractDocumentType ''Document Type: Site Plan'' = ''site plan''"
proof -
  have h1: "find (\<lambda>l. isTypeLabelLine (toLowerCase l)) (split_on newline ''Document Type: Site Plan'')
              = Some ''Document Type: Site Plan''"
    by code_simp
  have h2: "at_index (split_on (CHR '':'') ''Document Type: Site Plan'') 1 = Some '' Site Plan''"
    by code_simp
  have h3: "trim '' Site Plan'' \<noteq> []"
    by code_simp
  have v: "toLowerCase (trim '' Site Plan'') = ''site plan''"
    by code_simp
  show ?thesis
    using extractDocumentType_label_lowercased [OF h1 h2 h3] h1 h2 h3 v by simp
qed

text \<open>
  C6, as the spec states it: a text that contains \<open>floor plan\<close> in some casing and has no
  line with a \<open>document type:\<close> label is a \<open>Floor Plan\<close>. Two texts of that kind are not:
  a \<open>type of drawing\<close> label is honoured too, and a line that contains \<open>document type\<close>
  without a colon ends the scan with the default.
\<close>

theorem extractDocumentType_floor_plan_counterexample:
  "str_includes (toLowerCase (''Type of drawing: Section'' @ [newline] @ ''Ground floor plan'')) ''floor plan''
   \<and> split_on newline (toLowerCase (''Type of drawing: Section'' @ [newline] @ ''Ground floor plan''))
       = [''type of drawing: section'', ''ground floor plan'']
   \<and> \<not> str_includes ''type of drawing: section'' ''document type:''
   \<and> \<not> str_includes ''ground floor plan'' ''document type:''
   \<and> extractDocumentType (''Type of drawing: Section'' @ [newline] @ ''Ground floor plan'') = ''section''
   \<and> str_includes (toLowerCase ''Document type - floor plan'') ''floor plan''
   \<and> split_on newline (toLowerCase ''Document type - floor plan'') = [''document type - floor plan'']
   \<and> \<not> str_includes ''document type - floor plan'' ''document type:''
   \<and> extractDocumentType ''Document type - floor plan'' = ''Architectural Drawing''"
  by code_simp

text \<open>
  C6, amended. For every text that contains \<open>floor plan\<close> in some casing and none of whose
  lines contains, in any casing, \<open>document type\<close> or \<open>type of drawing\<close>,
  \<open>extractDocumentType\<close> returns exactly \<open>Floor Plan\<close>.
\<close>

theorem extractDocumentType_floor_plan:
  assumes "str_includes (toLowerCase text) ''floor plan''"
    and "\<forall>line \<in> set (split_on newline (toLowerCase text)).
           \<not> str_includes line ''document type'' \<and> \<not> str_includes line ''type of drawing''"
  shows "extractDocumentType text = ''Floor Plan''"
proof -
  have "find isTypeLabelLine (split_on newline (toLowerCase text)) = None"
    using assms(2) by (simp add: find_None_iff isTypeLabelLine_def)
  then show ?thesis
    using assms(1) by (simp add: extractDocumentType_def)
qed

theorem extractDocumentType_floor_plan_witness:
  "str_includes (toLowerCase (''Sheet A1'' @ [newline] @ ''Ground FLOOR Plan'')) ''floor plan''
   \<and> split_on newline (toLowerCase (''Sheet A1'' @ [newline] @ ''Ground FLOOR Plan''))
       = [''sheet a1'', ''ground floor plan'']
   \<and> extractDocumentType (''Sheet A1'' @ [newline] @ ''Ground FLOOR Plan'') = ''Floor Plan''"
proof -
  let ?t = "''Sheet A1'' @ [newline] @ ''Ground FLOOR Plan''"
  have h1: "str_includes (toLowerCase ?t) ''floor plan''"
    by code_simp
  have s: "split_on newline (toLowerCase ?t) = [''sheet a1'', ''ground floor plan'']"
    by code_simp
  have n: "\<not> str_includes ''sheet a1'' ''document type''"
    "\<not> str_includes ''sheet a1'' ''type of drawing''"
    "\<not> str_includes ''ground floor plan'' ''document type''"
    "\<not> str_includes ''ground floor plan'' ''type of drawing''"
    by code_simp+
  have h2: "\<forall>line \<in> set (split_on newline (toLowerCase ?t)).
              \<not> str_includes line ''document type'' \<and> \<not> str_includes line ''type of drawing''"
    unfolding s using n by simp
  show ?thesis
    using extractDocumentType_floor_plan [OF h1 h2] h1 s by simp
qed

text \<open>
  C8. \<open>extractMaterials\<close> is a function of the text alone, so two runs on one text give one
  list. That list has no element twice, and for every keyword of the vocabulary its
  capitalised form occurs once when the lower-cased text contains the keyword and not at
  all otherwise, however often the keyword occurs; the keyword as it is in the vocabulary,
  with its small first letter, never occurs.
\<close>

theorem extractMaterials_dedup:
  "distinct (extractMaterials text)
   \<and> (\<forall>m \<in> set commonMaterials.
         count_list (extractMaterials text) (capitalize m)
           = (if str_includes (toLowerCase text) m then 1 else 0)
         \<and> count_list (extractMaterials text) m = 0)"
  by (simp add: count_list_distinct extractMaterials_distinct capitalized_mem keyword_not_mem)

theorem extractMaterials_dedup_witness:
  "''concrete'' \<in> set commonMaterials
   \<and> str_includes (toLowerCase ''Concrete slab, CONCRETE columns and concrete walls'') ''concrete''
   \<and> capitalize ''concrete'' = ''Concrete''
   \<and> count_list (extractMaterials ''Concrete slab, CONCRETE columns and concrete walls'') ''Concrete'' = 1
   \<and> count_list (extractMaterials ''Concrete slab, CONCRETE columns and concrete walls'') ''concrete'' = 0"
proof -
  have m: "''concrete'' \<in> set commonMaterials"
    by code_simp
  have i: "str_includes (toLowerCase ''Concrete slab, CONCRETE columns and concrete walls'') ''concrete''"
    by code_simp
  have c: "capitalize ''concrete'' = ''Concrete''"
    by code_simp
  from extractMaterials_dedup [of "''Concrete slab, CONCRETE columns and concrete walls''"] m
  have "count_list (extractMaterials ''Concrete slab, CONCRETE columns and concrete walls'') (capitalize ''concrete'')
           = (if str_includes (toLowerCase ''Concrete slab, CONCRETE columns and concrete walls'') ''concrete'' then 1 else 0)
         \<and> count_list (extractMaterials ''Concrete slab, CONCRETE columns and concrete walls'') ''concrete'' = 0"
    by blast
  with m i c show ?thesis
    by simp
qed

section \<open>The fallback answer\<close>

lemma how_many_floors_branch: "str_includes (toLowerCase ''How many floors?'') ''floor''"
  by code_simp

text \<open>
  C9. For every record, the fallback answer to \<open>How many floors?\<close> contains the floors of
  the record as the template prints them (the digits of a number, a string as it is) and
  contains the type of the structure.
\<close>

theorem generateFallbackAnswer_how_many_floors:
  "str_includes (generateFallbackAnswer ''How many floors?'' record)
     (showFloors (floors (structuralElements record)))
   \<and> str_includes (generateFallbackAnswer ''How many floors?'' record)
       (type (structuralElements record))"
proof -
  let ?f = "showFloors (floors (structuralElements record))"
  let ?t = "type (structuralElements record)"
  let ?a = "''Based on the architectural drawing analysis, this building has ''"
  let ?b = "'' floors. The structure is designed as a ''"
  have ans: "generateFallbackAnswer ''How many floors?'' record = ?a @ ?f @ ?b @ ?t @ ''.''"
    unfolding generateFallbackAnswer_def Let_def using how_many_floors_branch by simp
  have "str_includes (?a @ ?f @ (?b @ ?t @ ''.'')) ?f"
    by (rule str_includes_middle)
  moreover have "str_includes ((?a @ ?f @ ?b) @ ?t @ ''.'') ?t"
    by (rule str_includes_middle)
  ultimately show ?thesis
    unfolding ans by simp
qed

section \<open>The cache\<close>

text \<open>
  C7. After \<open>set(k, r)\<close> on any cache, \<open>get(k)\<close> is \<open>r\<close>; and in a cache that started empty,
  \<open>get\<close> of a key that no call of \<open>set\<close> has used is absent.
\<close>

theorem cache_set_get:
  "cache_get (cache_set k r cache) k = Some r
   \<and> (k \<notin> fst ` set calls \<longrightarrow> cache_get (cache_sets calls newCache) k = None)"
  by (simp add: cache_sets_other) (simp add: cache_get_def cache_set_def newCache_def)

theorem cache_set_get_witness:
  "''document-2.png'' \<notin> fst ` set [(''document-1.png'', generateFallbackAnalysis ''plan.png'' ''2024'')]
   \<and> cache_get (cache_set ''document-1.png'' (generateFallbackAnalysis ''plan.png'' ''2024'') newCache)
        ''document-1.png'' = Some (generateFallbackAnalysis ''plan.png'' ''2024'')
   \<and> cache_get (cache_sets [(''document-1.png'', generateFallbackAnalysis ''plan.png'' ''2024'')] newCache)
        ''document-2.png'' = None"
  using cache_set_get [of "''document-1.png''" "generateFallbackAnalysis ''plan.png'' ''2024''" newCache
                          "[(''document-1.png'', generateFallbackAnalysis ''plan.png'' ''2024'')]"]
        cache_set_get [of "''document-2.png''" "generateFallbackAnalysis ''plan.png'' ''2024''" newCache
                          "[(''document-1.png'', generateFallbackAnalysis ''plan.png'' ''2024'')]"]
  by simp

section \<open>The handlers\<close>

text \<open>
  C2. An upload arrives and the gateway lists no usable model: the spec wants the fallback
  record stored and a success with a note. The upload handler answers with status 500 and
  leaves the cache as it was, for every file: the test of \<open>checkOllamaStatus\<close> comes
  before the block whose failures lead to the fallback record.
\<close>

theorem upload_no_models_error:
  "upload (env\<lparr>statusList := Some []\<rparr>) cache (Some f) =
     (cache, ErrorResponse 500 ''Ollama is not running or no suitable model found''
               [(''suggestion'', ''Please start Ollama and ensure you have llama3.2 or llava model installed'')])"
  by (simp add: upload_def checkOllamaStatus_def)

text \<open>
  The fallback record is stored when the status test has passed and the block after it
  throws. A list that passes the status test holds a vision model or a text model, so with
  a gateway that lists the same models twice the block never throws for want of a model.
\<close>

lemma usable_model_found:
  assumes "list_ex hasLlama models"
  shows "find isVisionModel models \<noteq> None \<or> find isTextModel models \<noteq> None"
proof -
  from assms obtain name where "name \<in> set models" and "hasLlama name"
    by (auto simp: list_ex_iff)
  then have "name \<in> set models" and "isVisionModel name \<or> isTextModel name"
    by (auto simp: hasLlama_def isVisionModel_def isTextModel_def)
  then show ?thesis
    by (auto simp: find_None_iff)
qed

lemma upload_fallback_after_status:
  assumes "checkOllamaStatus env" and "startsWith (mimetype f) ''image/''" and "analysisText env f = None"
  shows "upload env cache (Some f) =
           (cache_set (filename f) (generateFallbackAnalysis (originalname f) (clock env)) cache,
            UploadResponse (filename f) (generateFallbackAnalysis (originalname f) (clock env))
              (Note ''Using fallback analysis - please ensure Ollama is running with llava model for image analysis''))"
  using assms by (simp add: upload_def Let_def)




end
